theory Spec2Isabelle
  imports Complex_Main
begin

section \<open>The identity grid: 5 x 5 arrays\<close>

text \<open>
  Every array of \<^verbatim>\<open>game.py\<close> (\<^verbatim>\<open>INIT_ARRAY\<close>, \<^verbatim>\<open>Game.deck\<close>, each entry of
  \<^verbatim>\<open>Game.states\<close>, each card's boolean \<^verbatim>\<open>states\<close>) is a numpy array of shape (5, 5):
  rows are colors, columns are values. A row is a \<open>vec5\<close>, an array a \<open>vec5\<close> of rows, so
  the shape is part of the type. Reading at an index outside \<open>0..4\<close> raises IndexError in
  numpy; the functions below that index with a value that may be out of range test the
  range first and return the error.
\<close>

datatype 'a vec5 = Vec5 'a 'a 'a 'a 'a

type_synonym 'a matrix = "'a vec5 vec5"

fun vec5_nth :: "'a vec5 \<Rightarrow> nat \<Rightarrow> 'a" where
  "vec5_nth (Vec5 a b c d e) i =
     (if i = 0 then a else if i = 1 then b else if i = 2 then c else if i = 3 then d else e)"

definition vec5_of :: "(nat \<Rightarrow> 'a) \<Rightarrow> 'a vec5" where
  "vec5_of f = Vec5 (f 0) (f 1) (f 2) (f 3) (f 4)"

fun vec5_list :: "'a vec5 \<Rightarrow> 'a list" where
  "vec5_list (Vec5 a b c d e) = [a, b, c, d, e]"

definition mat_get :: "'a matrix \<Rightarrow> nat \<Rightarrow> nat \<Rightarrow> 'a" where
  "mat_get m i j = vec5_nth (vec5_nth m i) j"

definition mat_of :: "(nat \<Rightarrow> nat \<Rightarrow> 'a) \<Rightarrow> 'a matrix" where
  "mat_of f = vec5_of (\<lambda>i. vec5_of (\<lambda>j. f i j))"

definition mat_list :: "'a matrix \<Rightarrow> 'a list" where
  \<comment> \<open>the cells in row-major order, the order of \<^verbatim>\<open>flatten\<close> and \<^verbatim>\<open>np.argwhere\<close>\<close>
  "mat_list m = concat (map vec5_list (vec5_list m))"

definition mat_sum :: "'a::comm_monoid_add matrix \<Rightarrow> 'a" where
  \<comment> \<open>\<^verbatim>\<open>np.sum\<close>\<close>
  "mat_sum m = sum_list (mat_list m)"

definition coords :: "(nat \<times> nat) list" where
  "coords = concat (map (\<lambda>i. map (\<lambda>j. (i, j)) [0, 1, 2, 3, 4]) [0, 1, 2, 3, 4])"

definition argwhere :: "('a \<Rightarrow> bool) \<Rightarrow> 'a matrix \<Rightarrow> (nat \<times> nat) list" where
  \<comment> \<open>\<^verbatim>\<open>np.argwhere(cond)\<close>: the coordinates of the cells satisfying the condition,
      in row-major order\<close>
  "argwhere p m = filter (\<lambda>(i, j). p (mat_get m i j)) coords"

definition INIT_ARRAY :: "int matrix" where
  "INIT_ARRAY = Vec5 (Vec5 3 2 2 2 1) (Vec5 3 2 2 2 1) (Vec5 3 2 2 2 1)
                     (Vec5 3 2 2 2 1) (Vec5 3 2 2 2 1)"

section \<open>Errors\<close>

datatype error = ValueError | IndexError | AssertionError | AttributeError | RecursionError

text \<open>
  A method that mutates objects returns the outcome of the call together with the state it
  leaves behind, so that what an exception leaves mutated can be read off.
\<close>

datatype outcome = Done | Raised error

section \<open>Bound checks\<close>

text \<open>
  Modelled from the spec: \<^verbatim>\<open>utils.check_isin\<close> is imported by \<^verbatim>\<open>game.py\<close> and is not
  part of the source at hand. The spec gives the bound checks as half-open ranges: colors
  and values in \<open>[0, 5)\<close>, called as \<^verbatim>\<open>check_isin(color, (0, Card.UNK))\<close> with
  \<^verbatim>\<open>UNK = 5\<close>, and player ids in \<open>[0, player_count)\<close>, called as
  \<^verbatim>\<open>check_isin(player_id, (0, len(Game.players)))\<close>. The check passes when the value is
  at least the first bound and below the second; the callers' docstrings name the error it
  raises otherwise, ValueError.
\<close>

definition check_isin :: "int \<Rightarrow> int \<times> int \<Rightarrow> bool" where
  "check_isin x bounds = (fst bounds \<le> x \<and> x < snd bounds)"

section \<open>Information (a clue)\<close>

datatype info_type = Color | Value

record information =
  type :: info_type
  data :: nat
  negative :: bool

text \<open>
  \<^verbatim>\<open>Information.__init__(info_type, data, negative)\<close> first checks \<^verbatim>\<open>data\<close> with
  \<^verbatim>\<open>check_isin(data, (0, 4))\<close>, then sets \<^verbatim>\<open>is_color\<close> and \<^verbatim>\<open>is_value\<close> from the type
  string and raises ValueError for every string but the two. \<open>info_type\<close> has the two
  accepted values, and \<open>data\<close> is a natural number, since the check starts at 0. With the
  half-open bound check, the clues the constructor makes have an index from 0 to 3.
\<close>

definition Information_init :: "string \<Rightarrow> int \<Rightarrow> bool \<Rightarrow> error + information" where
  "Information_init info_type d neg =
     (if \<not> check_isin d (0, 4) then Inl ValueError
      else if info_type = ''color'' then Inr \<lparr>type = Color, data = nat d, negative = neg\<rparr>
      else if info_type = ''value'' then Inr \<lparr>type = Value, data = nat d, negative = neg\<rparr>
      else Inl ValueError)"

definition type_name :: "info_type \<Rightarrow> string" where
  \<comment> \<open>\<^verbatim>\<open>self.type\<close>, the string the constructor was given\<close>
  "type_name t = (case t of Color \<Rightarrow> ''color'' | Value \<Rightarrow> ''value'')"

definition is_color :: "information \<Rightarrow> bool" where
  "is_color info = (type info = Color)"

definition is_value :: "information \<Rightarrow> bool" where
  "is_value info = (type info = Value)"

definition negate :: "information \<Rightarrow> information" where
  \<comment> \<open>\<^verbatim>\<open>Information(self.type, self.data, not self.negative)\<close>: the constructor runs again,
      on a type and an index it has accepted once (lemma \<open>negate_constructed\<close>)\<close>
  "negate info = \<lparr>type = type info, data = data info, negative = (\<not> negative info)\<rparr>"

section \<open>Card\<close>

text \<open>
  Cards are objects: a hand and the sibling snapshot \<^verbatim>\<open>cards_in_hand\<close> of another card
  hold references to them, and a clue or a play mutates the one object all of them see.
  A reference is the index of the card in the list of all cards created so far (the heap
  of a game, below). \<open>player_id\<close> is \<^verbatim>\<open>hand.id\<close> of the hand given to the constructor, the
  only thing the code ever reads from \<^verbatim>\<open>card.hand\<close>.
\<close>

record card =
  card_color :: nat
  card_value :: nat
  player_id :: nat
  played :: bool
  card_states :: "bool matrix"
  cards_in_hand :: "nat list"

definition add_information :: "information \<Rightarrow> card \<Rightarrow> error + card" where
  \<comment> \<open>\<^verbatim>\<open>Card.add_information\<close>. \<^verbatim>\<open>self[d, :] = 0\<close> raises IndexError for \<open>d\<close> outside the
      array; the two slices \<^verbatim>\<open>self[:d, :] = 0\<close>, \<^verbatim>\<open>self[d + 1:, :] = 0\<close> never raise.\<close>
  "add_information info c =
     (let d = data info; m = card_states c in
      if is_color info then
        if negative info then
          if d < 5 then Inr (c\<lparr>card_states := mat_of (\<lambda>i j. if i = d then False else mat_get m i j)\<rparr>)
          else Inl IndexError
        else
          Inr (c\<lparr>card_states :=
                 (let m1 = mat_of (\<lambda>i j. if i < d then False else mat_get m i j)
                  in mat_of (\<lambda>i j. if d + 1 \<le> i then False else mat_get m1 i j))\<rparr>)
      else
        if negative info then
          if d < 5 then Inr (c\<lparr>card_states := mat_of (\<lambda>i j. if j = d then False else mat_get m i j)\<rparr>)
          else Inl IndexError
        else
          Inr (c\<lparr>card_states :=
                 (let m1 = mat_of (\<lambda>i j. if j < d then False else mat_get m i j)
                  in mat_of (\<lambda>i j. if d + 1 \<le> j then False else mat_get m1 i j))\<rparr>))"

definition info_mask :: "information \<Rightarrow> bool matrix" where
  \<comment> \<open>the cells a clue keeps: it depends on the clue alone\<close>
  "info_mask info =
     mat_of (\<lambda>i j. let k = (if is_color info then i else j)
                    in if negative info then k \<noteq> data info else k = data info)"

definition mat_and :: "bool matrix \<Rightarrow> bool matrix \<Rightarrow> bool matrix" where
  "mat_and a b = mat_of (\<lambda>i j. mat_get a i j \<and> mat_get b i j)"

definition then_info :: "error + card \<Rightarrow> information \<Rightarrow> error + card" where
  \<comment> \<open>a second call after a first one: it is made only when the first returned\<close>
  "then_info r info = (case r of Inl e \<Rightarrow> Inl e | Inr c \<Rightarrow> add_information info c)"

fun apply_clues :: "information list \<Rightarrow> card \<Rightarrow> outcome \<times> card" where
  \<comment> \<open>a sequence of calls of \<^verbatim>\<open>Card.add_information\<close> on one card, up to the first that raises\<close>
  "apply_clues [] c = (Done, c)"
| "apply_clues (info # infos) c =
     (case add_information info c of
        Inl e \<Rightarrow> (Raised e, c)
      | Inr c' \<Rightarrow> apply_clues infos c')"

definition truthful :: "card \<Rightarrow> information \<Rightarrow> bool" where
  \<comment> \<open>an affirmed clue names the card's own color or value, a negated one another\<close>
  "truthful c info =
     (let k = (if is_color info then card_color c else card_value c)
      in if negative info then data info \<noteq> k else data info = k)"

section \<open>Python indexing and the constructor of a card\<close>

definition py_index :: "'a list \<Rightarrow> int \<Rightarrow> 'a option" where
  \<comment> \<open>\<^verbatim>\<open>xs[i]\<close> on a Python list: a negative index counts from the end, an index outside
      the list raises IndexError (\<open>None\<close>)\<close>
  "py_index xs i =
     (let n = int (length xs); k = (if i < 0 then n + i else i)
      in if 0 \<le> k \<and> k < n then Some (xs ! nat k) else None)"

definition UNK :: nat where
  "UNK = 5"

definition fresh_card :: "nat \<Rightarrow> nat \<Rightarrow> nat \<Rightarrow> card" where
  \<comment> \<open>the fields \<^verbatim>\<open>Card.__init__\<close> sets: the mask is \<^verbatim>\<open>np.ones((5, 5), dtype='bool')\<close>\<close>
  "fresh_card c v hid =
     \<lparr>card_color = c, card_value = v, player_id = hid, played = False,
      card_states = mat_of (\<lambda>i j. True), cards_in_hand = []\<rparr>"

definition Card_init :: "int \<Rightarrow> int \<Rightarrow> nat \<Rightarrow> error + card" where
  \<comment> \<open>\<^verbatim>\<open>Card.__init__(color, value, hand)\<close>, the hand given by its id\<close>
  "Card_init c v hid =
     (if \<not> check_isin c (0, int UNK) then Inl ValueError
      else if \<not> check_isin v (0, int UNK) then Inl ValueError
      else Inr (fresh_card (nat c) (nat v) hid))"

section \<open>Hand and Game\<close>

record hand =
  hand_id :: nat
  cards :: "nat list"

text \<open>
  The class attributes of \<^verbatim>\<open>Game\<close> are the one process-wide state; \<open>heap\<close> holds every
  \<^verbatim>\<open>Card\<close> object created so far, and a card reference is an index into it. The counts of
  \<open>deck\<close> and \<open>states\<close> are int32 in the source; they start at 3 or less and only ever
  go down by one for a card dealt or played, so they stay far from the bounds of int32
  and are integers here.
\<close>

record game =
  heap :: "card list"
  deck :: "int matrix"
  states :: "int matrix list"
  players :: "hand list"
  stacks :: "int list"
  score :: int
  penalty :: int

definition init_game :: game where
  "init_game = \<lparr>heap = [], deck = INIT_ARRAY, states = [], players = [],
                 stacks = replicate 5 0, score = 0, penalty = 0\<rparr>"

definition mat_upd :: "'a matrix \<Rightarrow> nat \<Rightarrow> nat \<Rightarrow> ('a \<Rightarrow> 'a) \<Rightarrow> 'a matrix" where
  \<comment> \<open>\<^verbatim>\<open>m[i, j] = f(m[i, j])\<close>, for \<open>i\<close> and \<open>j\<close> inside the array\<close>
  "mat_upd m i j f = mat_of (\<lambda>a b. if a = i \<and> b = j then f (mat_get m a b) else mat_get m a b)"

definition new_card :: "int \<Rightarrow> int \<Rightarrow> nat \<Rightarrow> game \<Rightarrow> outcome \<times> game" where
  \<comment> \<open>the caller's \<^verbatim>\<open>Card(color, value, hand)\<close>: the new object is the last of the heap\<close>
  "new_card c v hid g =
     (case Card_init c v hid of
        Inl e \<Rightarrow> (Raised e, g)
      | Inr crd \<Rightarrow> (Done, g\<lparr>heap := heap g @ [crd]\<rparr>))"

definition add_card :: "nat \<Rightarrow> nat \<Rightarrow> bool \<Rightarrow> game \<Rightarrow> game" where
  \<comment> \<open>\<^verbatim>\<open>Game.players[pid].add_card(card, game_start)\<close>\<close>
  "add_card pid cid game_start g =
     (let h = players g ! pid;
          crd = heap g ! cid;
          hp = (if \<not> game_start
                then (heap g)[cid := crd\<lparr>cards_in_hand := cards_in_hand crd @ cards h\<rparr>]
                else heap g)
      in g\<lparr>heap := hp, players := (players g)[pid := h\<lparr>cards := cards h @ [cid]\<rparr>]\<rparr>)"

definition dec_others :: "nat \<Rightarrow> nat \<Rightarrow> nat \<Rightarrow> int matrix list \<Rightarrow> int matrix list" where
  \<comment> \<open>\<^verbatim>\<open>for i in range(len(Game.states)): if i != player_id: Game.states[i][c, v] -= 1\<close>\<close>
  "dec_others pid c v sts =
     map (\<lambda>(i, s). if i \<noteq> pid then mat_upd s c v (\<lambda>x. x - 1) else s) (enumerate 0 sts)"

definition deal_card :: "nat \<Rightarrow> bool \<Rightarrow> game \<Rightarrow> outcome \<times> game" where
  \<comment> \<open>\<^verbatim>\<open>Game.deal_card(card, game_start)\<close>. \<^verbatim>\<open>check_iscard\<close> rejects an argument that is no
      card: here, a reference to no object of the heap.\<close>
  "deal_card cid game_start g =
     (if length (heap g) \<le> cid then (Raised ValueError, g)
      else
        let crd = heap g ! cid; pid = player_id crd;
            c = card_color crd; v = card_value crd
        in if \<not> check_isin (int pid) (0, int (length (players g))) then (Raised ValueError, g)
           else if 5 \<le> c \<or> 5 \<le> v then (Raised IndexError, g)
           else if mat_get (deck g) c v = 0 then (Raised ValueError, g)
           else (Done, add_card pid cid game_start
                   (g\<lparr>deck := mat_upd (deck g) c v (\<lambda>x. x - 1),
                      states := dec_others pid c v (states g)\<rparr>)))"

definition add_player :: "game \<Rightarrow> game" where
  "add_player g =
     g\<lparr>players := players g @ [\<lparr>hand_id = length (players g), cards = []\<rparr>],
       states := states g @ [INIT_ARRAY]\<rparr>"

definition play_card :: "int \<Rightarrow> nat \<Rightarrow> game \<Rightarrow> outcome \<times> game" where
  \<comment> \<open>\<^verbatim>\<open>Game.play_card(player_id, card)\<close> for a \<^verbatim>\<open>Card\<close> argument (an int has no attribute
      \<^verbatim>\<open>played\<close>). \<^verbatim>\<open>list.remove\<close> raises ValueError for a card that is not in the hand,
      after the flag is set.\<close>
  "play_card player cid g =
     (if \<not> check_isin player (0, int (length (players g))) then (Raised ValueError, g)
      else if length (heap g) \<le> cid then (Raised AttributeError, g)
      else
        let pid = nat player;
            g1 = g\<lparr>heap := (heap g)[cid := (heap g ! cid)\<lparr>played := True\<rparr>]\<rparr>;
            crd = heap g1 ! cid; c = card_color crd; v = card_value crd;
            h = players g1 ! pid
        in if cid \<notin> set (cards h) then (Raised ValueError, g1)
           else
             let g2 = g1\<lparr>players := (players g1)[pid := h\<lparr>cards := remove1 cid (cards h)\<rparr>]\<rparr>
             in if length (states g2) \<le> pid \<or> 5 \<le> c \<or> 5 \<le> v then (Raised IndexError, g2)
                else
                  let g3 = g2\<lparr>states := (states g2)[pid := mat_upd (states g2 ! pid) c v (\<lambda>x. x - 1)]\<rparr>
                  in if stacks g3 ! c = int v
                     then (Done, g3\<lparr>stacks := (stacks g3)[c := stacks g3 ! c + 1],
                                     score := score g3 + 1\<rparr>)
                     else (Done, g3\<lparr>penalty := penalty g3 + 1\<rparr>))"

fun inform_targets :: "nat list \<Rightarrow> information \<Rightarrow> int list \<Rightarrow> card list \<Rightarrow> outcome \<times> card list" where
  \<comment> \<open>the first loop of \<^verbatim>\<open>Hand.add_information\<close>, over the indices given\<close>
  "inform_targets cs info [] hp = (Done, hp)"
| "inform_targets cs info (idx # idxs) hp =
     (case py_index cs idx of
        None \<Rightarrow> (Raised IndexError, hp)
      | Some cid \<Rightarrow>
          if played (hp ! cid) then (Raised ValueError, hp)
          else (case add_information info (hp ! cid) of
                  Inl e \<Rightarrow> (Raised e, hp)
                | Inr c' \<Rightarrow> inform_targets cs info idxs (hp[cid := c'])))"

fun inform_others :: "information \<Rightarrow> int list \<Rightarrow> (nat \<times> nat) list \<Rightarrow> card list \<Rightarrow> outcome \<times> card list" where
  \<comment> \<open>the second loop, over \<^verbatim>\<open>enumerate(self.cards)\<close>\<close>
  "inform_others info card_index [] hp = (Done, hp)"
| "inform_others info card_index ((i, cid) # rest) hp =
     (if int i \<notin> set card_index \<and> \<not> played (hp ! cid)
      then (case add_information (negate info) (hp ! cid) of
              Inl e \<Rightarrow> (Raised e, hp)
            | Inr c' \<Rightarrow> inform_others info card_index rest (hp[cid := c']))
      else inform_others info card_index rest hp)"

definition hand_add_information :: "hand \<Rightarrow> int list \<Rightarrow> information \<Rightarrow> card list \<Rightarrow> outcome \<times> card list" where
  \<comment> \<open>\<^verbatim>\<open>Hand.add_information(card_index, info)\<close>, with \<open>card_index\<close> the list that
      \<^verbatim>\<open>make_iterable\<close> returns\<close>
  "hand_add_information h card_index info hp =
     (case inform_targets (cards h) info card_index hp of
        (Raised e, hp') \<Rightarrow> (Raised e, hp')
      | (Done, hp') \<Rightarrow> inform_others info card_index (enumerate 0 (cards h)) hp')"

definition give_information :: "int \<Rightarrow> int list \<Rightarrow> information \<Rightarrow> game \<Rightarrow> outcome \<times> game" where
  "give_information player card_index info g =
     (case py_index (players g) player of
        None \<Rightarrow> (Raised IndexError, g)
      | Some h \<Rightarrow>
          (case hand_add_information h card_index info (heap g) of
             (out, hp') \<Rightarrow> (out, g\<lparr>heap := hp'\<rparr>)))"

section \<open>FractionMatrix\<close>

text \<open>
  \<^verbatim>\<open>utils.FractionMatrix\<close> is not part of the source at hand. \<^verbatim>\<open>game.py\<close> uses it as a numpy
  array (it is made by \<^verbatim>\<open>ndarray.view\<close>, compared with \<^verbatim>\<open>!= 0\<close>, passed to \<^verbatim>\<open>np.max\<close>
  and \<^verbatim>\<open>np.argwhere\<close>) that carries one more attribute, \<^verbatim>\<open>denominator\<close>: a 5 x 5 array
  of numbers and a number. The four operations \<^verbatim>\<open>Card.probabilities\<close> calls on it are
  parameters of the model: whatever the class computes, the functions below are what
  \<^verbatim>\<open>game.py\<close> does with it.
\<close>

record fraction_matrix =
  entries :: "rat matrix"
  denominator :: rat

record fm_ops =
  fm_view :: "int matrix \<Rightarrow> fraction_matrix"
  fm_sub :: "fraction_matrix \<Rightarrow> fraction_matrix \<Rightarrow> fraction_matrix"
  fm_mul :: "bool matrix \<Rightarrow> fraction_matrix \<Rightarrow> fraction_matrix"
  fm_make_proba :: "fraction_matrix \<Rightarrow> fraction_matrix"

text \<open>
  Modelled from the spec: the class \<^verbatim>\<open>FractionMatrix\<close> of \<^verbatim>\<open>utils\<close>, for the evaluations on
  concrete games below. The spec gives a 5 x 5 matrix of rational counts sharing one
  denominator, with elementwise subtraction of two matrices on the same denominator basis,
  elementwise multiplication by a boolean mask that zeroes the masked-out cells, and a
  normalization that takes the sum of the remaining entries as the new denominator, the
  entries being the numerators over it. A matrix of counts is over the denominator 1. The
  value of a cell is its entry over the denominator, and the subtraction is of values, on
  the denominator of the first matrix: from the counts of a visible state it takes away
  the probabilities of a sibling, as the determinism scenario of the spec needs (three
  cards of one identity in a hand, each told its color and value, are each determined:
  lemma \<open>determinism_scenario\<close>). A matrix that is zero everywhere has the denominator 0
  after normalization; its values are 0.
\<close>

definition spec_fm :: fm_ops where
  "spec_fm =
     \<lparr>fm_view = (\<lambda>m. \<lparr>entries = mat_of (\<lambda>i j. of_int (mat_get m i j)), denominator = 1\<rparr>),
      fm_sub = (\<lambda>a b. \<lparr>entries = mat_of (\<lambda>i j. mat_get (entries a) i j
                                                    - denominator a * (mat_get (entries b) i j / denominator b)),
                        denominator = denominator a\<rparr>),
      fm_mul = (\<lambda>mask a. \<lparr>entries = mat_of (\<lambda>i j. if mat_get mask i j then mat_get (entries a) i j else 0),
                           denominator = denominator a\<rparr>),
      fm_make_proba = (\<lambda>a. a\<lparr>denominator := mat_sum (entries a)\<rparr>)\<rparr>"

section \<open>Card: probabilities\<close>

fun subtract_cards ::
  "fm_ops \<Rightarrow> (nat \<Rightarrow> error + fraction_matrix) \<Rightarrow> card list \<Rightarrow> fraction_matrix \<Rightarrow> nat list
     \<Rightarrow> error + fraction_matrix" where
  \<comment> \<open>the loop \<^verbatim>\<open>for card in self.cards_in_hand\<close>; \<open>rec\<close> is the recursive call
      \<^verbatim>\<open>card.probabilities(player_state=player_state)\<close>\<close>
  "subtract_cards ops rec hp pm [] = Inr pm"
| "subtract_cards ops rec hp pm (s # ss) =
     (if \<not> played (hp ! s)
      then (case rec s of
              Inl e \<Rightarrow> Inl e
            | Inr d \<Rightarrow> subtract_cards ops rec hp (fm_sub ops pm d) ss)
      else subtract_cards ops rec hp pm ss)"

text \<open>
  \<^verbatim>\<open>Card.probabilities(return_denominator=False, player_state)\<close>. The recursion follows the
  references of \<^verbatim>\<open>cards_in_hand\<close>, and nothing in the code keeps them acyclic: Python
  raises RecursionError when the calls nest deeper than the interpreter's limit. The first
  argument is the number of nested calls still allowed. \<^verbatim>\<open>Game.states[self.player_id]\<close>
  raises IndexError for a card whose hand is none of the game's.
\<close>

fun probabilities ::
  "nat \<Rightarrow> fm_ops \<Rightarrow> game \<Rightarrow> int matrix option \<Rightarrow> nat \<Rightarrow> error + fraction_matrix" where
  "probabilities 0 ops g player_state cid = Inl RecursionError"
| "probabilities (Suc limit) ops g player_state cid =
     (let crd = heap g ! cid in
      case (case player_state of
              None \<Rightarrow> (if player_id crd < length (states g)
                        then Inr (fm_view ops (states g ! player_id crd))
                        else Inl IndexError)
            | Some st \<Rightarrow> Inr (fm_view ops st)) of
        Inl e \<Rightarrow> Inl e
      | Inr pm0 \<Rightarrow>
          (case subtract_cards ops (probabilities limit ops g player_state) (heap g) pm0
                  (cards_in_hand crd) of
             Inl e \<Rightarrow> Inl e
           | Inr pm \<Rightarrow> Inr (fm_make_proba ops (fm_mul ops (card_states crd) pm))))"

definition probabilities_denominator ::
  "nat \<Rightarrow> fm_ops \<Rightarrow> game \<Rightarrow> int matrix option \<Rightarrow> nat \<Rightarrow> error + fraction_matrix \<times> rat" where
  \<comment> \<open>\<^verbatim>\<open>Card.probabilities(return_denominator=True, player_state)\<close>: the same matrix, paired
      with its \<^verbatim>\<open>denominator\<close>\<close>
  "probabilities_denominator limit ops g player_state cid =
     (case probabilities limit ops g player_state cid of
        Inl e \<Rightarrow> Inl e
      | Inr pm \<Rightarrow> Inr (pm, denominator pm))"

definition determined :: "nat \<Rightarrow> fm_ops \<Rightarrow> game \<Rightarrow> nat \<Rightarrow> error + bool" where
  "determined limit ops g cid =
     (case probabilities limit ops g None cid of
        Inl e \<Rightarrow> Inl e
      | Inr pm \<Rightarrow>
          (let n_possible = length (argwhere (\<lambda>x. x \<noteq> 0) (entries pm))
           in if n_possible = 0 then Inl AssertionError
              else if n_possible = 1 then Inr True else Inr False))"

definition well_predicted :: "nat \<Rightarrow> fm_ops \<Rightarrow> game \<Rightarrow> nat \<Rightarrow> error + bool" where
  \<comment> \<open>\<^verbatim>\<open>np.argwhere(self.states == 1)[0]\<close> is the first true cell of the belief mask, in
      row-major order; IndexError when there is none\<close>
  "well_predicted limit ops g cid =
     (let crd = heap g ! cid in
      case determined limit ops g cid of
        Inl e \<Rightarrow> Inl e
      | Inr True \<Rightarrow>
          (case argwhere (\<lambda>b. b) (card_states crd) of
             [] \<Rightarrow> Inl IndexError
           | index_predicted # rest \<Rightarrow>
               if fst index_predicted = card_color crd \<and> snd index_predicted = card_value crd
               then Inr True else Inr False)
      | Inr False \<Rightarrow> Inr False)"

datatype likely = Indices "(nat \<times> nat) list" | IndicesProba "(nat \<times> nat) list" rat

definition mat_max :: "rat matrix \<Rightarrow> rat" where
  \<comment> \<open>\<^verbatim>\<open>np.max\<close>\<close>
  "mat_max m = fold max (mat_list m) (mat_get m 0 0)"

definition unpack2 :: "fraction_matrix \<Rightarrow> error + fraction_matrix \<times> rat" where
  \<comment> \<open>\<^verbatim>\<open>probabilities, total = <array of shape (5, 5)>\<close>: unpacking iterates over the array,
      which yields its 5 rows, for 2 names: ValueError (too many values to unpack)\<close>
  "unpack2 pm = Inl ValueError"

definition most_likely :: "nat \<Rightarrow> fm_ops \<Rightarrow> game \<Rightarrow> bool \<Rightarrow> nat \<Rightarrow> error + likely" where
  \<comment> \<open>\<^verbatim>\<open>Card.most_likely(return_proba)\<close>; it calls \<^verbatim>\<open>self.probabilities()\<close> with the default
      \<^verbatim>\<open>return_denominator=False\<close>\<close>
  "most_likely limit ops g return_proba cid =
     (case probabilities limit ops g None cid of
        Inl e \<Rightarrow> Inl e
      | Inr r \<Rightarrow>
          (case unpack2 r of
             Inl e \<Rightarrow> Inl e
           | Inr (probas, tot) \<Rightarrow>
               (let max_probas = mat_max (entries probas);
                    arg_probas = argwhere (\<lambda>x. x = max_probas) (entries probas)
                in if return_proba then Inr (IndicesProba arg_probas (max_probas / tot))
                   else Inr (Indices arg_probas))))"

section \<open>The distribution as the specification words it\<close>

fun sequence :: "(error + 'a) list \<Rightarrow> error + 'a list" where
  \<comment> \<open>the results of a list of computations, or the first error among them\<close>
  "sequence [] = Inr []"
| "sequence (r # rs) =
     (case r of
        Inl e \<Rightarrow> Inl e
      | Inr x \<Rightarrow> (case sequence rs of Inl e \<Rightarrow> Inl e | Inr xs \<Rightarrow> Inr (x # xs)))"

text \<open>
  The four steps of the specification: start from the chosen visible-state matrix; subtract
  the distribution of every sibling of the snapshot that is not played, each computed
  under the same \<open>player_state\<close>; multiply by the card's own belief mask; normalize. The
  result holds the counts and the denominator.
\<close>

fun spec_distribution ::
  "nat \<Rightarrow> fm_ops \<Rightarrow> game \<Rightarrow> int matrix option \<Rightarrow> nat \<Rightarrow> error + fraction_matrix" where
  "spec_distribution 0 ops g player_state cid = Inl RecursionError"
| "spec_distribution (Suc limit) ops g player_state cid =
     (let crd = heap g ! cid;
          unplayed = filter (\<lambda>s. \<not> played (heap g ! s)) (cards_in_hand crd)
      in case (case player_state of
                 None \<Rightarrow> (if player_id crd < length (states g)
                           then Inr (states g ! player_id crd) else Inl IndexError)
               | Some st \<Rightarrow> Inr st) of
           Inl e \<Rightarrow> Inl e
         | Inr start \<Rightarrow>
             (case sequence (map (spec_distribution limit ops g player_state) unplayed) of
                Inl e \<Rightarrow> Inl e
              | Inr ds \<Rightarrow>
                  Inr (fm_make_proba ops
                         (fm_mul ops (card_states crd) (foldl (fm_sub ops) (fm_view ops start) ds)))))"

section \<open>Dealing a hand\<close>

text \<open>
  \<^verbatim>\<open>Game.random_card\<close> draws an index of the flattened deck with \<^verbatim>\<open>np.random.choice\<close>, each
  cell weighted by its count. The draw is a parameter here: \<open>sample\<close> is the index drawn,
  a number below 25 whose deck cell is not 0. The functions are defined for every
  \<open>sample\<close>; one that cannot be drawn makes the call raise (in the constructor or in
  \<^verbatim>\<open>deal_card\<close>) where the source would have drawn another.
\<close>

definition random_card :: "nat \<Rightarrow> nat \<Rightarrow> game \<Rightarrow> outcome \<times> game" where
  "random_card sample pid g =
     (if mat_sum (deck g) = 0 then (Raised ValueError, g)
      else new_card (int (sample div 5)) (int (sample mod 5)) (hand_id (players g ! pid)) g)"

fun deal_hand_loop :: "nat \<Rightarrow> nat list \<Rightarrow> bool \<Rightarrow> game \<Rightarrow> outcome \<times> game" where
  \<comment> \<open>\<^verbatim>\<open>for i in range(n)\<close>, with the \<open>n\<close> draws given; the card made by \<^verbatim>\<open>random_card\<close> is
      the last of the heap\<close>
  "deal_hand_loop pid [] game_start g = (Done, g)"
| "deal_hand_loop pid (sample # samples) game_start g =
     (case random_card sample pid g of
        (Raised e, g1) \<Rightarrow> (Raised e, g1)
      | (Done, g1) \<Rightarrow>
          (case deal_card (length (heap g1) - 1) game_start g1 of
             (Raised e, g2) \<Rightarrow> (Raised e, g2)
           | (Done, g2) \<Rightarrow> deal_hand_loop pid samples game_start g2))"

definition deal_hand :: "int \<Rightarrow> nat list \<Rightarrow> bool \<Rightarrow> game \<Rightarrow> outcome \<times> game" where
  "deal_hand player samples game_start g =
     (if \<not> check_isin player (0, int (length (players g))) then (Raised ValueError, g)
      else deal_hand_loop (nat player) samples game_start g)"

section \<open>Sequences of calls\<close>

datatype action =
    AddPlayer
  | NewCard int int nat
  | DealCard nat bool
  | DealHand int "nat list" bool
  | PlayCard int nat
  | GiveInformation int "int list" string int bool

fun exec :: "action \<Rightarrow> game \<Rightarrow> outcome \<times> game" where
  "exec AddPlayer g = (Done, add_player g)"
| "exec (NewCard c v hid) g = new_card c v hid g"
| "exec (DealCard cid game_start) g = deal_card cid game_start g"
| "exec (DealHand player samples game_start) g = deal_hand player samples game_start g"
| "exec (PlayCard player cid) g = play_card player cid g"
| "exec (GiveInformation player card_index info_type d neg) g =
     (case Information_init info_type d neg of
        Inl e \<Rightarrow> (Raised e, g)
      | Inr info \<Rightarrow> give_information player card_index info g)"

text \<open>
  The calls a driver makes: \<open>NewCard\<close> is \<^verbatim>\<open>Card(color, value, hand)\<close> for the hand of the
  given id, and \<open>GiveInformation\<close> is
  \<^verbatim>\<open>Game.give_information(player_id, card_index, Information(info_type, data, negative))\<close>:
  every clue of a run is made by the constructor.
\<close>

fun run :: "action list \<Rightarrow> game \<Rightarrow> game" where
  \<comment> \<open>the calls of a driver, one after the other; a call that raises leaves the state it
      had reached, and the driver goes on\<close>
  "run [] g = g"
| "run (a # as) g = run as (snd (exec a g))"

section \<open>What a clue does to the card at an index, and example games\<close>

definition inform_one :: "nat list \<Rightarrow> information \<Rightarrow> int \<Rightarrow> card list \<Rightarrow> card list" where
  \<comment> \<open>the belief mask of the card at index \<open>idx\<close> of a hand, narrowed by the clue's mask\<close>
  "inform_one cs info idx hp =
     (case py_index cs idx of
        None \<Rightarrow> hp
      | Some cid \<Rightarrow>
          hp[cid := (hp ! cid)\<lparr>card_states := mat_and (card_states (hp ! cid)) (info_mask info)\<rparr>])"

definition game_one_card :: game where
  \<comment> \<open>two players, and a card of identity (0, 0) made for player 0, not yet dealt\<close>
  "game_one_card = run [AddPlayer, AddPlayer, NewCard 0 0 0] init_game"

definition game_no_such_player :: game where
  \<comment> \<open>one player, and a card made for a hand of id 3\<close>
  "game_no_such_player = run [AddPlayer, NewCard 0 0 3] init_game"

definition game_played_in_hand :: game where
  \<comment> \<open>player 0 is dealt the cards 0 and 1, plays card 1 and is dealt the same object again:
      the hand holds card 0 and card 1, and card 1 is marked played\<close>
  "game_played_in_hand =
     run [AddPlayer, NewCard 0 0 0, NewCard 0 1 0, DealCard 0 False, DealCard 1 False,
          PlayCard 0 1, DealCard 1 False] init_game"

definition game_blue_two :: game where
  \<comment> \<open>player 1 holds the three cards of identity (0, 0) and the card (0, 4); player 0 holds
      the cards 3, 4 and 5, of identities (0, 1), (1, 2) and (1, 3), from the initial deal.
      Player 0 is told which card has color 0, which has value 2 and which has value 3.\<close>
  "game_blue_two =
     run [AddPlayer, AddPlayer,
          NewCard 0 0 1, NewCard 0 0 1, NewCard 0 0 1,
          NewCard 0 1 0, NewCard 1 2 0, NewCard 1 3 0,
          NewCard 0 4 1,
          DealCard 0 True, DealCard 1 True, DealCard 2 True, DealCard 6 True,
          DealCard 3 True, DealCard 4 True, DealCard 5 True,
          GiveInformation 0 [0] ''color'' 0 False,
          GiveInformation 0 [1] ''value'' 2 False,
          GiveInformation 0 [2] ''value'' 3 False] init_game"

definition game_dealt_card :: game where
  \<comment> \<open>two players, and one card of identity (0, 0) dealt to player 0\<close>
  "game_dealt_card = run [AddPlayer, AddPlayer, NewCard 0 0 0, DealCard 0 False] init_game"

definition game_three_blue_ones :: game where
  \<comment> \<open>one player is dealt the three cards of identity (0, 0), one after the other, and is
      told for each that its color is 0 and its value is 0\<close>
  "game_three_blue_ones =
     run [AddPlayer, AddPlayer,
          NewCard 0 0 0, NewCard 0 0 0, NewCard 0 0 0,
          DealCard 0 False, DealCard 1 False, DealCard 2 False,
          GiveInformation 0 [0, 1, 2] ''color'' 0 False,
          GiveInformation 0 [0, 1, 2] ''value'' 0 False] init_game"

definition game_same_identity :: game where
  \<comment> \<open>two players, each dealt one card of identity (0, 0)\<close>
  "game_same_identity =
     run [AddPlayer, AddPlayer, NewCard 0 0 0, NewCard 0 0 1, DealCard 0 False, DealCard 1 False]
       init_game"

definition mat_min :: "int matrix \<Rightarrow> int matrix \<Rightarrow> int matrix" where
  "mat_min a b = mat_of (\<lambda>i j. min (mat_get a i j) (mat_get b i j))"

fun elementwise_min :: "int matrix list \<Rightarrow> int matrix option" where
  \<comment> \<open>\<^verbatim>\<open>min(Game.states)\<close>, element-wise, as the comment in \<^verbatim>\<open>deal_card\<close> has it; there is no
      minimum of no matrix\<close>
  "elementwise_min [] = None"
| "elementwise_min (s # ss) = Some (fold mat_min ss s)"

definition hand_count :: "card list \<Rightarrow> nat list \<Rightarrow> nat \<Rightarrow> nat \<Rightarrow> nat" where
  \<comment> \<open>how many cards of a hand have the identity \<open>(c, v)\<close>\<close>
  "hand_count hp cs c v =
     length (filter (\<lambda>k. card_color (hp ! k) = c \<and> card_value (hp ! k) = v) cs)"

text \<open>
  What the bookkeeping of \<^verbatim>\<open>deal_card\<close> and \<^verbatim>\<open>play_card\<close> keeps true: a player's matrix
  counts, for each identity, at least the cards of the deck and the cards of the player's
  own hand, which the player does not see; the deck never exceeds the initial counts; the
  hands hold cards of the heap, and there are as many matrices as players.
\<close>

definition game_inv :: "game \<Rightarrow> bool" where
  "game_inv g \<longleftrightarrow>
     length (states g) = length (players g) \<and>
     (\<forall>p < length (players g). \<forall>k \<in> set (cards (players g ! p)). k < length (heap g)) \<and>
     (\<forall>c < 5. \<forall>v < 5. mat_get (deck g) c v \<le> mat_get INIT_ARRAY c v \<and>
        (\<forall>p < length (states g).
           mat_get (deck g) c v + int (hand_count (heap g) (cards (players g ! p)) c v)
             \<le> mat_get (states g ! p) c v))"

section \<open>Arrays: basic facts\<close>

lemma lt5_cases: "i < 5 \<Longrightarrow> i = 0 \<or> i = 1 \<or> i = 2 \<or> i = 3 \<or> i = (4::nat)"
  by arith

lemma vec5_nth_of: "i < 5 \<Longrightarrow> vec5_nth (vec5_of f) i = f i"
  using lt5_cases [of i] by (auto simp: vec5_of_def)

lemma mat_get_of: "i < 5 \<Longrightarrow> j < 5 \<Longrightarrow> mat_get (mat_of f) i j = f i j"
  by (simp add: mat_get_def mat_of_def vec5_nth_of)

lemma vec5_ext:
  assumes "\<And>i. i < 5 \<Longrightarrow> vec5_nth a i = vec5_nth b i"
  shows "a = b"
proof (cases a; cases b)
  fix a0 a1 a2 a3 a4 b0 b1 b2 b3 b4
  assume a: "a = Vec5 a0 a1 a2 a3 a4" and b: "b = Vec5 b0 b1 b2 b3 b4"
  from assms [of 0] assms [of 1] assms [of 2] assms [of 3] assms [of 4]
  show "a = b" by (simp add: a b)
qed

lemma mat_ext:
  assumes "\<And>i j. i < 5 \<Longrightarrow> j < 5 \<Longrightarrow> mat_get a i j = mat_get b i j"
  shows "a = b"
  by (rule vec5_ext, rule vec5_ext) (use assms in \<open>simp add: mat_get_def\<close>)

lemma mat_of_cong: "(\<And>i j. i < 5 \<Longrightarrow> j < 5 \<Longrightarrow> f i j = g i j) \<Longrightarrow> mat_of f = mat_of g"
  by (rule mat_ext) (simp add: mat_get_of)

section \<open>Clues on one card\<close>

text \<open>
  The clues of the constructor have an index below 4, and \<^verbatim>\<open>negate\<close>, which runs the
  constructor again on the fields of such a clue, returns the clue with the other polarity.
\<close>

lemma Information_init_data:
  "Information_init info_type d neg = Inr info \<Longrightarrow> data info < 4 \<and> negative info = neg"
  by (auto simp: Information_init_def check_isin_def split: if_splits)

lemma negate_constructed:
  "Information_init info_type d neg = Inr info \<Longrightarrow>
   Information_init (type_name (type info)) (int (data info)) (\<not> negative info) = Inr (negate info)"
  by (auto simp: Information_init_def check_isin_def negate_def type_name_def split: if_splits)

lemma add_information_mask:
  assumes v: "data info < 5 \<or> \<not> negative info"
  shows "add_information info c = Inr (c\<lparr>card_states := mat_and (card_states c) (info_mask info)\<rparr>)"
proof -
  have m: "card_states (projr (add_information info c)) = mat_and (card_states c) (info_mask info)"
    by (rule mat_ext)
       (use v in \<open>auto simp: add_information_def mat_and_def info_mask_def Let_def mat_get_of\<close>)
  have r: "add_information info c = Inr (c\<lparr>card_states := card_states (projr (add_information info c))\<rparr>)"
    using v by (auto simp: add_information_def Let_def)
  show ?thesis using r m by simp
qed

lemma mat_and_commute: "mat_and (mat_and m a) b = mat_and (mat_and m b) a"
  unfolding mat_and_def by (rule mat_of_cong) (auto simp: mat_get_of)

lemma mat_and_idem: "mat_and (mat_and m a) a = mat_and m a"
  unfolding mat_and_def by (rule mat_of_cong) (auto simp: mat_get_of)

text \<open>
  C7: for a clue with index \<open>c\<close> in \<open>[0, 5)\<close>, \<^verbatim>\<open>Card.add_information\<close> returns, changes the
  belief mask only, and leaves the cell \<open>(i, j)\<close> true exactly when it was true and the clue
  keeps it: an affirmed color clue keeps row \<open>c\<close> only, a negated color clue every row but
  \<open>c\<close>, an affirmed value clue column \<open>c\<close> only, a negated value clue every column but
  \<open>c\<close>. No cell that was false becomes true. (The card may be played or not: the flag is
  not read.)
\<close>

theorem add_information_rows_columns:
  assumes "data info < 5" and "i < 5" and "j < 5"
  shows "\<exists>c'. add_information info c = Inr c' \<and> c' = c\<lparr>card_states := card_states c'\<rparr> \<and>
     mat_get (card_states c') i j =
       (mat_get (card_states c) i j \<and>
        (if is_color info then (if negative info then i \<noteq> data info else i = data info)
         else (if negative info then j \<noteq> data info else j = data info))) \<and>
     (mat_get (card_states c') i j \<longrightarrow> mat_get (card_states c) i j)"
  using assms
  by (simp add: add_information_mask mat_and_def info_mask_def mat_get_of Let_def)

theorem add_information_rows_columns_witness:
  "data \<lparr>type = Color, data = 1, negative = False\<rparr> < 5 \<and> (1::nat) < 5 \<and> (2::nat) < 5 \<and>
   (\<exists>c'. add_information \<lparr>type = Color, data = 1, negative = False\<rparr> (fresh_card 1 2 0) = Inr c' \<and>
          mat_get (card_states c') 1 2 \<and> \<not> mat_get (card_states c') 2 2)"
proof -
  let ?I = "\<lparr>type = Color, data = 1, negative = False\<rparr>"
  have d: "data ?I < 5" by simp
  from add_information_rows_columns [OF d, of 1 2 "fresh_card 1 2 0"]
       add_information_rows_columns [OF d, of 2 2 "fresh_card 1 2 0"]
  show ?thesis by (auto simp: is_color_def fresh_card_def mat_get_of)
qed

text \<open>
  C10: for clues with an index in \<open>[0, 5)\<close>, \<^verbatim>\<open>Card.add_information\<close> replaces the belief
  mask by its pointwise conjunction with \<open>info_mask\<close>, a 5 x 5 mask that depends on the
  clue's attribute, index and polarity alone. So two clues give the same card in either
  order, and a clue given twice gives the same card as given once.
\<close>

theorem add_information_conjunction:
  assumes "data a < 5" and "data b < 5"
  shows "add_information a c = Inr (c\<lparr>card_states := mat_and (card_states c) (info_mask a)\<rparr>)
    \<and> then_info (add_information a c) b = then_info (add_information b c) a
    \<and> then_info (add_information a c) a = add_information a c"
  using assms
  by (simp add: add_information_mask then_info_def mat_and_commute mat_and_idem)

theorem add_information_conjunction_witness:
  "data \<lparr>type = Color, data = 1, negative = False\<rparr> < 5 \<and>
   data \<lparr>type = Value, data = 3, negative = True\<rparr> < 5 \<and>
   then_info (add_information \<lparr>type = Color, data = 1, negative = False\<rparr> (fresh_card 1 2 0))
             \<lparr>type = Value, data = 3, negative = True\<rparr> =
   then_info (add_information \<lparr>type = Value, data = 3, negative = True\<rparr> (fresh_card 1 2 0))
             \<lparr>type = Color, data = 1, negative = False\<rparr>"
proof -
  let ?A = "\<lparr>type = Color, data = 1, negative = False\<rparr>"
  let ?B = "\<lparr>type = Value, data = 3, negative = True\<rparr>"
  have a: "data ?A < 5" and b: "data ?B < 5" by simp_all
  from add_information_conjunction [OF a b, of "fresh_card 1 2 0"] a b
  show ?thesis by blast
qed

lemma truthful_keeps:
  assumes "card_color c < 5" and "card_value c < 5" and "truthful c info"
    and "mat_get (card_states c) (card_color c) (card_value c)"
    and "add_information info c = Inr c'"
  shows "mat_get (card_states c') (card_color c') (card_value c') \<and>
         card_color c' = card_color c \<and> card_value c' = card_value c"
  using assms
  by (auto simp: add_information_def truthful_def Let_def mat_get_of split: if_splits)

text \<open>
  C9: on a card whose color and value are in \<open>[0, 5)\<close> and whose belief mask holds its true
  identity, any sequence of truthful clues (an affirmed clue names the card's own color or
  value, a negated clue another index) leaves the cell of the true identity true. A negated
  clue with an index outside the grid raises and changes nothing, so the cell is true in
  the card the sequence leaves behind whether or not every call returned.
\<close>

theorem truthful_clues_keep_identity:
  "card_color c < 5 \<Longrightarrow> card_value c < 5 \<Longrightarrow> list_all (truthful c) infos \<Longrightarrow>
   mat_get (card_states c) (card_color c) (card_value c) \<Longrightarrow>
   mat_get (card_states (snd (apply_clues infos c))) (card_color c) (card_value c)"
proof (induction infos arbitrary: c)
  case Nil
  then show ?case by simp
next
  case (Cons info infos)
  show ?case
  proof (cases "add_information info c")
    case (Inl e)
    then show ?thesis using Cons.prems by simp
  next
    case (Inr c')
    from truthful_keeps [OF Cons.prems(1,2) _ Cons.prems(4) Inr] Cons.prems(3)
    have k: "mat_get (card_states c') (card_color c') (card_value c')"
      "card_color c' = card_color c" "card_value c' = card_value c" by auto
    have "truthful c' = truthful c" by (simp add: truthful_def k fun_eq_iff)
    then have t: "list_all (truthful c') infos" using Cons.prems(3) by simp
    from Cons.IH [of c'] k t Cons.prems(1,2) Inr show ?thesis by simp
  qed
qed

theorem truthful_clues_keep_identity_witness:
  "card_color (fresh_card 1 2 0) < 5 \<and> card_value (fresh_card 1 2 0) < 5 \<and>
   list_all (truthful (fresh_card 1 2 0))
     [\<lparr>type = Color, data = 1, negative = False\<rparr>, \<lparr>type = Value, data = 3, negative = True\<rparr>,
      \<lparr>type = Color, data = 0, negative = True\<rparr>, \<lparr>type = Value, data = 2, negative = False\<rparr>] \<and>
   mat_get (card_states (fresh_card 1 2 0)) 1 2 \<and>
   mat_get (card_states (snd (apply_clues
     [\<lparr>type = Color, data = 1, negative = False\<rparr>, \<lparr>type = Value, data = 3, negative = True\<rparr>,
      \<lparr>type = Color, data = 0, negative = True\<rparr>, \<lparr>type = Value, data = 2, negative = False\<rparr>]
     (fresh_card 1 2 0)))) 1 2"
proof -
  let ?C = "fresh_card 1 2 0"
  let ?L = "[\<lparr>type = Color, data = 1, negative = False\<rparr>, \<lparr>type = Value, data = 3, negative = True\<rparr>,
      \<lparr>type = Color, data = 0, negative = True\<rparr>, \<lparr>type = Value, data = 2, negative = False\<rparr>]"
  have h1: "card_color ?C < 5" and h2: "card_value ?C < 5" by (simp_all add: fresh_card_def)
  have h3: "list_all (truthful ?C) ?L" by (simp add: truthful_def is_color_def fresh_card_def)
  have h4: "mat_get (card_states ?C) (card_color ?C) (card_value ?C)"
    by (simp add: fresh_card_def mat_get_of)
  from truthful_clues_keep_identity [OF h1 h2 h3 h4] h1 h2 h3 h4
  show ?thesis by (simp add: fresh_card_def)
qed

text \<open>
  C5, as the code has it: \<^verbatim>\<open>Card.add_information\<close> never reads the \<open>played\<close> flag. On a
  card whose flag is set it returns or raises exactly as on the same card with the flag
  clear, and changes the belief mask in the same way. (The test for played cards is made
  by \<^verbatim>\<open>Hand.add_information\<close>, for the cards it is told to target.)
\<close>

theorem add_information_ignores_played:
  "add_information info (c\<lparr>played := True\<rparr>) =
     (case add_information info (c\<lparr>played := False\<rparr>) of
        Inl e \<Rightarrow> Inl e
      | Inr c' \<Rightarrow> Inr (c'\<lparr>played := True\<rparr>))"
  by (simp add: add_information_def Let_def)

text \<open>
  C5 as stated fails: on a played card with a full belief mask, an affirmed clue for color 0
  returns, and the mask it leaves is the clue's mask, not the full one.
\<close>

theorem add_information_played_counterexample:
  "played ((fresh_card 0 0 0)\<lparr>played := True\<rparr>) \<and>
   add_information \<lparr>type = Color, data = 0, negative = False\<rparr> ((fresh_card 0 0 0)\<lparr>played := True\<rparr>) =
     Inr ((fresh_card 0 0 0)
            \<lparr>played := True,
             card_states := mat_and (mat_of (\<lambda>i j. True)) (info_mask \<lparr>type = Color, data = 0, negative = False\<rparr>)\<rparr>) \<and>
   mat_get (card_states ((fresh_card 0 0 0)\<lparr>played := True\<rparr>)) 1 0 \<and>
   \<not> mat_get (mat_and (mat_of (\<lambda>i j. True)) (info_mask \<lparr>type = Color, data = 0, negative = False\<rparr>)) 1 0"
  by (simp add: add_information_mask fresh_card_def mat_and_def info_mask_def mat_get_of is_color_def)

section \<open>Dealing a card\<close>

lemma mat_get_upd:
  "a < 5 \<Longrightarrow> b < 5 \<Longrightarrow>
   mat_get (mat_upd m i j f) a b = (if a = i \<and> b = j then f (mat_get m a b) else mat_get m a b)"
  by (simp add: mat_upd_def mat_get_of)

lemma mat_sum_upd:
  fixes m :: "int matrix"
  assumes "i < 5" and "j < 5"
  shows "mat_sum (mat_upd m i j f) = mat_sum m - mat_get m i j + f (mat_get m i j)"
proof -
  obtain r0 r1 r2 r3 r4 where m: "m = Vec5 r0 r1 r2 r3 r4" by (cases m)
  obtain a0 a1 a2 a3 a4 where r0: "r0 = Vec5 a0 a1 a2 a3 a4" by (cases r0)
  obtain b0 b1 b2 b3 b4 where r1: "r1 = Vec5 b0 b1 b2 b3 b4" by (cases r1)
  obtain c0 c1 c2 c3 c4 where r2: "r2 = Vec5 c0 c1 c2 c3 c4" by (cases r2)
  obtain d0 d1 d2 d3 d4 where r3: "r3 = Vec5 d0 d1 d2 d3 d4" by (cases r3)
  obtain e0 e1 e2 e3 e4 where r4: "r4 = Vec5 e0 e1 e2 e3 e4" by (cases r4)
  from lt5_cases [OF assms(1)] lt5_cases [OF assms(2)]
  show ?thesis
    by (elim disjE;
        simp add: m r0 r1 r2 r3 r4 mat_sum_def mat_list_def mat_upd_def mat_of_def vec5_of_def
          mat_get_def)
qed

lemma length_dec_others: "length (dec_others pid c v sts) = length sts"
  by (simp add: dec_others_def)

lemma nth_dec_others:
  "p < length sts \<Longrightarrow>
   dec_others pid c v sts ! p = (if p \<noteq> pid then mat_upd (sts ! p) c v (\<lambda>x. x - 1) else sts ! p)"
  by (simp add: dec_others_def nth_enumerate_eq)

text \<open>
  C8: \<^verbatim>\<open>Game.deal_card\<close> raises when the deck cell of the card's identity is 0 or the id of
  the card's hand is not below the number of players; whenever it raises, the game is
  what it was. For a card of the heap with an identity inside the grid it returns in every
  other case. When it returns, the sum of the deck is one less, the entry of \<open>states\<close> at
  the card's identity is one less for every player but the owner and the owner's whole
  matrix is unchanged, and the card is the new last card of the owner's hand.
\<close>

theorem deal_card_effects:
  "let r = deal_card cid game_start g; crd = heap g ! cid;
       c = card_color crd; v = card_value crd; pid = player_id crd
   in (mat_get (deck g) c v = 0 \<or> length (players g) \<le> pid \<longrightarrow> fst r \<noteq> Done) \<and>
      (fst r \<noteq> Done \<longrightarrow> snd r = g) \<and>
      (cid < length (heap g) \<and> c < 5 \<and> v < 5 \<and> mat_get (deck g) c v \<noteq> 0 \<and> pid < length (players g)
         \<longrightarrow> fst r = Done) \<and>
      (fst r = Done \<longrightarrow>
         mat_sum (deck (snd r)) = mat_sum (deck g) - 1 \<and>
         length (states (snd r)) = length (states g) \<and>
         (\<forall>p < length (states g).
            mat_get (states (snd r) ! p) c v =
              (if p \<noteq> pid then mat_get (states g ! p) c v - 1 else mat_get (states g ! p) c v)) \<and>
         (pid < length (states g) \<longrightarrow> states (snd r) ! pid = states g ! pid) \<and>
         cards (players (snd r) ! pid) = cards (players g ! pid) @ [cid])"
  unfolding Let_def
  apply (intro conjI impI)
  subgoal by (auto simp: deal_card_def Let_def check_isin_def)
  subgoal by (auto simp: deal_card_def Let_def split: if_splits)
  subgoal by (auto simp: deal_card_def Let_def check_isin_def)
  subgoal by (auto simp: deal_card_def Let_def check_isin_def add_card_def mat_sum_upd split: if_splits)
  subgoal by (auto simp: deal_card_def Let_def check_isin_def add_card_def length_dec_others split: if_splits)
  subgoal by (auto simp: deal_card_def Let_def check_isin_def add_card_def nth_dec_others mat_get_upd split: if_splits)
  subgoal by (auto simp: deal_card_def Let_def check_isin_def add_card_def nth_dec_others split: if_splits)
  subgoal by (auto simp: deal_card_def Let_def check_isin_def add_card_def split: if_splits)
  done

theorem deal_card_effects_witness:
  "fst (deal_card 0 False game_one_card) = Done \<and>
   mat_sum (deck (snd (deal_card 0 False game_one_card))) = mat_sum (deck game_one_card) - 1 \<and>
   mat_get (states (snd (deal_card 0 False game_one_card)) ! 1) 0 0 = 2 \<and>
   states (snd (deal_card 0 False game_one_card)) ! 0 = states game_one_card ! 0 \<and>
   cards (players (snd (deal_card 0 False game_one_card)) ! 0) = [0] \<and>
   length (players game_no_such_player) \<le> player_id (heap game_no_such_player ! 0) \<and>
   fst (deal_card 0 False game_no_such_player) \<noteq> Done \<and>
   snd (deal_card 0 False game_no_such_player) = game_no_such_player"
proof -
  have pre: "0 < length (heap game_one_card)"
    "card_color (heap game_one_card ! 0) = 0" "card_value (heap game_one_card ! 0) = 0"
    "player_id (heap game_one_card ! 0) = 0"
    "mat_get (deck game_one_card) 0 0 \<noteq> 0" "length (players game_one_card) = 2"
    "length (states game_one_card) = 2" "mat_get (states game_one_card ! 1) 0 0 = 3"
    "cards (players game_one_card ! 0) = []"
    by code_simp+
  have bad: "length (players game_no_such_player) \<le> player_id (heap game_no_such_player ! 0)"
    by code_simp
  from deal_card_effects [of 0 False game_one_card]
       deal_card_effects [of 0 False game_no_such_player] pre bad
  show ?thesis by (simp add: Let_def)
qed

section \<open>Clues on a hand\<close>

lemma add_information_played: "add_information info c = Inr c' \<Longrightarrow> played c' = played c"
  by (auto simp: add_information_def Let_def split: if_splits)

lemma played_update: "played c' = played (hp ! cid) \<Longrightarrow> played (hp[cid := c'] ! k) = played (hp ! k)"
  by (cases "cid < length hp") (auto simp: nth_list_update list_update_beyond)

lemma inform_targets_played:
  "played (snd (inform_targets cs info idxs hp) ! k) = played (hp ! k)"
proof (induction idxs arbitrary: hp)
  case Nil
  then show ?case by simp
next
  case (Cons idx idxs)
  show ?case
    by (auto simp: Cons.IH played_update add_information_played split: option.splits sum.splits)
qed

lemma inform_targets_append:
  "inform_targets cs info (pre @ post) hp =
     (case inform_targets cs info pre hp of
        (Raised e, hp') \<Rightarrow> (Raised e, hp')
      | (Done, hp') \<Rightarrow> inform_targets cs info post hp')"
  by (induction pre arbitrary: hp) (auto split: option.splits sum.splits)

lemma inform_targets_fails:
  assumes "idx \<in> set idxs" and "py_index cs idx = Some cid" and "played (hp ! cid)"
  shows "\<exists>e. fst (inform_targets cs info idxs hp) = Raised e"
  using assms
proof (induction idxs arbitrary: hp)
  case Nil
  then show ?case by simp
next
  case (Cons i idxs)
  show ?case
  proof (cases "py_index cs i")
    case None
    then show ?thesis by simp
  next
    case (Some k)
    show ?thesis
    proof (cases "played (hp ! k)")
      case True
      then show ?thesis using Some by simp
    next
      case False
      show ?thesis
      proof (cases "add_information info (hp ! k)")
        case (Inl e)
        then show ?thesis using Some False by simp
      next
        case (Inr c')
        have "idx \<noteq> i" using Cons.prems Some False by auto
        then have m: "idx \<in> set idxs" using Cons.prems(1) by simp
        have "played (hp[k := c'] ! cid)"
          using played_update [OF add_information_played [OF Inr], of cid] Cons.prems(3) by simp
        from Cons.IH [OF m Cons.prems(2) this] show ?thesis using Some False Inr by simp
      qed
    qed
  qed
qed

lemma inform_targets_prefix:
  assumes "data info < 5 \<or> \<not> negative info"
    and "\<forall>i \<in> set pre. \<exists>k. py_index cs i = Some k \<and> \<not> played (hp ! k)"
  shows "inform_targets cs info pre hp = (Done, fold (inform_one cs info) pre hp)"
  using assms(2)
proof (induction pre arbitrary: hp)
  case Nil
  then show ?case by simp
next
  case (Cons i pre)
  from Cons.prems obtain k where k: "py_index cs i = Some k" "\<not> played (hp ! k)" by auto
  let ?hp = "hp[k := (hp ! k)\<lparr>card_states := mat_and (card_states (hp ! k)) (info_mask info)\<rparr>]"
  have "\<forall>i \<in> set pre. \<exists>j. py_index cs i = Some j \<and> \<not> played (?hp ! j)"
    using Cons.prems by (auto simp: played_update)
  from Cons.IH [OF this] show ?case
    using k by (simp add: add_information_mask [OF assms(1)] inform_one_def)
qed

text \<open>
  C6, as the code has it: when an index of the list denotes a played card of the hand,
  \<^verbatim>\<open>Hand.add_information\<close> raises, and the cards are left as the first loop left them: no
  negated clue has reached a card outside the list. The call is not atomic. The played card
  is found when the loop reaches it: if the indices before it denote cards that are not
  played (and the clue's index is inside the grid), the error is ValueError, and by then
  each of these earlier cards has had its belief mask narrowed by the clue, and stays so.
\<close>

theorem hand_add_information_not_atomic:
  "(idx \<in> set card_index \<and> py_index (cards h) idx = Some cid \<and> played (hp ! cid) \<longrightarrow>
      (\<exists>e. fst (hand_add_information h card_index info hp) = Raised e) \<and>
      snd (hand_add_information h card_index info hp) =
        snd (inform_targets (cards h) info card_index hp)) \<and>
   (card_index = pre @ idx # post \<and> py_index (cards h) idx = Some cid \<and> played (hp ! cid) \<and>
    (\<forall>i \<in> set pre. \<exists>k. py_index (cards h) i = Some k \<and> \<not> played (hp ! k)) \<and>
    (data info < 5 \<or> \<not> negative info) \<longrightarrow>
      hand_add_information h card_index info hp =
        (Raised ValueError, fold (inform_one (cards h) info) pre hp))"
proof (intro conjI impI)
  assume a: "idx \<in> set card_index \<and> py_index (cards h) idx = Some cid \<and> played (hp ! cid)"
  then obtain e where e: "fst (inform_targets (cards h) info card_index hp) = Raised e"
    using inform_targets_fails by blast
  then show "\<exists>e. fst (hand_add_information h card_index info hp) = Raised e"
    by (cases "inform_targets (cards h) info card_index hp") (auto simp: hand_add_information_def)
  from e show "snd (hand_add_information h card_index info hp) =
      snd (inform_targets (cards h) info card_index hp)"
    by (cases "inform_targets (cards h) info card_index hp") (auto simp: hand_add_information_def)
next
  assume a: "card_index = pre @ idx # post \<and> py_index (cards h) idx = Some cid \<and> played (hp ! cid) \<and>
    (\<forall>i \<in> set pre. \<exists>k. py_index (cards h) i = Some k \<and> \<not> played (hp ! k)) \<and>
    (data info < 5 \<or> \<not> negative info)"
  then have p: "inform_targets (cards h) info pre hp = (Done, fold (inform_one (cards h) info) pre hp)"
    using inform_targets_prefix by blast
  have "played (fold (inform_one (cards h) info) pre hp ! cid)"
    using inform_targets_played [of "cards h" info pre hp cid] p a by simp
  then show "hand_add_information h card_index info hp =
        (Raised ValueError, fold (inform_one (cards h) info) pre hp)"
    using a p by (simp add: hand_add_information_def inform_targets_append)
qed

theorem hand_add_information_not_atomic_witness:
  "py_index (cards (players game_played_in_hand ! 0)) 1 = Some 1 \<and>
   played (heap game_played_in_hand ! 1) \<and>
   py_index (cards (players game_played_in_hand ! 0)) 0 = Some 0 \<and>
   \<not> played (heap game_played_in_hand ! 0) \<and>
   hand_add_information (players game_played_in_hand ! 0) [0, 1]
       \<lparr>type = Color, data = 0, negative = False\<rparr> (heap game_played_in_hand) =
     (Raised ValueError,
      fold (inform_one (cards (players game_played_in_hand ! 0))
              \<lparr>type = Color, data = 0, negative = False\<rparr>) [0] (heap game_played_in_hand))"
proof -
  let ?h = "players game_played_in_hand ! 0"
  let ?hp = "heap game_played_in_hand"
  let ?I = "\<lparr>type = Color, data = 0, negative = False\<rparr>"
  have f: "py_index (cards ?h) 1 = Some 1" "played (?hp ! 1)"
    "py_index (cards ?h) 0 = Some 0" "\<not> played (?hp ! 0)"
    by code_simp+
  have g: "\<forall>i \<in> set [0]. \<exists>k. py_index (cards ?h) i = Some k \<and> \<not> played (?hp ! k)"
    using f by simp
  from hand_add_information_not_atomic [of 1 "[0, 1]" ?h 1 ?hp ?I "[0]" "[]"] f g
  show ?thesis by simp
qed

text \<open>
  C6 as stated fails: in a game where the hand of player 0 holds card 0, not played, and
  card 1, played, a clue for the indices 0 and 1 raises ValueError, and the belief mask of
  card 0, full before the call, has lost the cell (1, 0).
\<close>

theorem hand_add_information_counterexample:
  "cards (players game_played_in_hand ! 0) = [0, 1] \<and>
   played (heap game_played_in_hand ! 1) \<and>
   fst (give_information 0 [0, 1] \<lparr>type = Color, data = 0, negative = False\<rparr> game_played_in_hand) =
     Raised ValueError \<and>
   mat_get (card_states (heap game_played_in_hand ! 0)) 1 0 \<and>
   \<not> mat_get (card_states (heap (snd (give_information 0 [0, 1]
          \<lparr>type = Color, data = 0, negative = False\<rparr> game_played_in_hand)) ! 0)) 1 0"
  by code_simp

section \<open>The probability distribution of a card\<close>

lemma subtract_cards_sequence:
  "subtract_cards ops rec hp pm ss =
     (case sequence (map rec (filter (\<lambda>s. \<not> played (hp ! s)) ss)) of
        Inl e \<Rightarrow> Inl e
      | Inr ds \<Rightarrow> Inr (foldl (fm_sub ops) pm ds))"
  by (induction ss arbitrary: pm) (auto split: sum.splits)

lemma probabilities_spec:
  "probabilities limit ops g player_state cid = spec_distribution limit ops g player_state cid"
proof (induction limit arbitrary: cid)
  case 0
  show ?case by simp
next
  case (Suc limit)
  have r: "probabilities limit ops g player_state = spec_distribution limit ops g player_state"
    using Suc.IH by (simp add: fun_eq_iff)
  show ?case
  proof (cases player_state)
    case None
    with r show ?thesis
      by (simp add: subtract_cards_sequence Let_def split: sum.splits)
  next
    case (Some st)
    with r show ?thesis
      by (simp add: subtract_cards_sequence Let_def split: sum.splits)
  qed
qed

text \<open>
  C1: whatever \<^verbatim>\<open>FractionMatrix\<close> computes, \<^verbatim>\<open>Card.probabilities\<close> is the distribution of
  the specification: the chosen visible-state matrix (the matrix of the card's own player
  when \<open>player_state\<close> is not given), minus the distribution of each sibling of the
  snapshot that is not played, computed by the same function under the same
  \<open>player_state\<close> and subtracted in the order of the snapshot, times the card's belief
  mask, normalized. It returns the matrix, which carries its denominator, and with
  \<^verbatim>\<open>return_denominator\<close> the pair of the matrix and the denominator. Both sides raise in the
  same cases: for a card of no player of the game, and when the siblings nest deeper than
  the recursion limit.
\<close>

theorem probabilities_follow_spec:
  "probabilities limit ops g player_state cid = spec_distribution limit ops g player_state cid \<and>
   probabilities_denominator limit ops g player_state cid =
     (case spec_distribution limit ops g player_state cid of
        Inl e \<Rightarrow> Inl e
      | Inr d \<Rightarrow> Inr (d, denominator d))"
  by (simp add: probabilities_spec probabilities_denominator_def)

lemma sequence_Inr:
  "(\<And>r. r \<in> set rs \<Longrightarrow> \<exists>x. r = Inr x) \<Longrightarrow> \<exists>xs. sequence rs = Inr xs"
proof (induction rs)
  case Nil
  then show ?case by simp
next
  case (Cons r rs)
  then obtain x where "r = Inr x" by auto
  moreover from Cons obtain xs where "sequence rs = Inr xs" by auto
  ultimately show ?case by simp
qed

text \<open>
  The recursion returns when the snapshots are acyclic, as they are when every snapshot
  holds cards dealt earlier: with a rank that decreases from a card of the heap to its
  siblings, a limit above the rank of the card is enough.
\<close>

lemma probabilities_returns:
  assumes dag: "\<And>c s. c < length (heap g) \<Longrightarrow> s \<in> set (cards_in_hand (heap g ! c)) \<Longrightarrow>
                  s < length (heap g) \<and> rk s < rk c"
  shows "cid < length (heap g) \<Longrightarrow> rk cid < limit \<Longrightarrow>
         \<exists>d. probabilities limit ops g (Some st) cid = Inr d"
proof (induction limit arbitrary: cid)
  case 0
  then show ?case by simp
next
  case (Suc limit)
  have "\<exists>xs. sequence (map (spec_distribution limit ops g (Some st))
       (filter (\<lambda>s. \<not> played (heap g ! s)) (cards_in_hand (heap g ! cid)))) = Inr xs"
  proof (rule sequence_Inr)
    fix r
    assume "r \<in> set (map (spec_distribution limit ops g (Some st))
       (filter (\<lambda>s. \<not> played (heap g ! s)) (cards_in_hand (heap g ! cid))))"
    then obtain s where s: "s \<in> set (cards_in_hand (heap g ! cid))"
      "r = spec_distribution limit ops g (Some st) s"
      by auto
    from dag [OF Suc.prems(1) s(1)] Suc.prems(2) have "s < length (heap g)" "rk s < limit" by simp_all
    from Suc.IH [OF this] show "\<exists>x. r = Inr x" by (simp add: s probabilities_spec)
  qed
  then show ?case by (auto simp: probabilities_spec Let_def)
qed

text \<open>
  In \<open>game_three_blue_ones\<close> the snapshot of a card holds the cards made before it, so the
  reference itself is a rank: the distribution of the last card is computed within 3 nested
  calls, under any visible state.
\<close>

lemma probabilities_returns_example:
  "\<exists>d. probabilities 3 ops game_three_blue_ones (Some st) 2 = Inr d"
proof (rule probabilities_returns [where rk = "\<lambda>k. k"])
  have hp: "length (heap game_three_blue_ones) = 3"
    "cards_in_hand (heap game_three_blue_ones ! 0) = []"
    "cards_in_hand (heap game_three_blue_ones ! 1) = [0]"
    "cards_in_hand (heap game_three_blue_ones ! 2) = [0, 1]"
    by code_simp+
  show "s < length (heap game_three_blue_ones) \<and> s < c"
    if "c < length (heap game_three_blue_ones)"
      and "s \<in> set (cards_in_hand (heap game_three_blue_ones ! c))" for c s
  proof -
    from that(1) hp(1) have "c = 0 \<or> c = 1 \<or> c = 2" by arith
    with that(2) hp show ?thesis by auto
  qed
  show "2 < length (heap game_three_blue_ones)" by code_simp
  show "(2::nat) < 3" by simp
qed

text \<open>
  The determinism scenario of the spec, with the \<^verbatim>\<open>FractionMatrix\<close> modelled from it: each of
  the three cards is determined and well predicted. The second card has the first as its
  sibling and the third has both, so the subtraction is used.
\<close>

lemma determinism_scenario:
  "cards_in_hand (heap game_three_blue_ones ! 2) = [0, 1] \<and>
   determined 10 spec_fm game_three_blue_ones 0 = Inr True \<and>
   determined 10 spec_fm game_three_blue_ones 1 = Inr True \<and>
   determined 10 spec_fm game_three_blue_ones 2 = Inr True \<and>
   well_predicted 10 spec_fm game_three_blue_ones 0 = Inr True \<and>
   well_predicted 10 spec_fm game_three_blue_ones 1 = Inr True \<and>
   well_predicted 10 spec_fm game_three_blue_ones 2 = Inr True"
  by code_simp

section \<open>well_predicted and most_likely\<close>

text \<open>
  C2 fails on the code. In \<open>game_blue_two\<close> every clue is made by the constructor, with an
  index of at most 3. Card 3, of identity (0, 1), has the belief mask
  \<open>{(0, 0), (0, 1), (0, 4)}\<close>, and player 0 sees the three cards (0, 0) and the card (0, 4)
  in the other hand: the distribution of card 3 has the one non-zero cell (0, 1), so
  \<^verbatim>\<open>determined\<close> returns True and the determined identity is the true one.
  \<^verbatim>\<open>well_predicted\<close> returns False: it compares the true identity with the first true cell
  of the belief mask, (0, 0), not with the non-zero cell of the distribution. The card has
  no sibling, so nothing is subtracted.
\<close>

theorem well_predicted_reads_mask:
  "cards (players game_blue_two ! 0) = [3, 4, 5] \<and>
   cards_in_hand (heap game_blue_two ! 3) = [] \<and>
   determined 10 spec_fm game_blue_two 3 = Inr True \<and>
   (case probabilities 10 spec_fm game_blue_two None 3 of
      Inl e \<Rightarrow> []
    | Inr pm \<Rightarrow> argwhere (\<lambda>x. x \<noteq> 0) (entries pm)) = [(0, 1)] \<and>
   card_color (heap game_blue_two ! 3) = 0 \<and> card_value (heap game_blue_two ! 3) = 1 \<and>
   argwhere (\<lambda>b. b) (card_states (heap game_blue_two ! 3)) = [(0, 0), (0, 1), (0, 4)] \<and>
   well_predicted 10 spec_fm game_blue_two 3 = Inr False"
  by code_simp

text \<open>
  C3 fails on the code: \<^verbatim>\<open>most_likely\<close> never returns. It unpacks the result of
  \<^verbatim>\<open>self.probabilities()\<close> into two names, and without \<^verbatim>\<open>return_denominator=True\<close> the
  result is the matrix alone, whose 5 rows are too many values to unpack. So the call raises
  the error of \<^verbatim>\<open>probabilities\<close>, or ValueError when \<^verbatim>\<open>probabilities\<close> returns, as it does
  for the one card of \<open>game_dealt_card\<close>, which has had no clue.
\<close>

theorem most_likely_raises:
  "most_likely limit ops g return_proba cid =
     (case probabilities limit ops g None cid of
        Inl e \<Rightarrow> Inl e
      | Inr pm \<Rightarrow> Inl ValueError) \<and>
   (case probabilities 10 spec_fm game_dealt_card None 0 of Inl e \<Rightarrow> False | Inr pm \<Rightarrow> True) \<and>
   most_likely 10 spec_fm game_dealt_card True 0 = Inl ValueError \<and>
   most_likely 10 spec_fm game_dealt_card False 0 = Inl ValueError"
proof -
  have "most_likely limit ops g return_proba cid =
     (case probabilities limit ops g None cid of
        Inl e \<Rightarrow> Inl e
      | Inr pm \<Rightarrow> Inl ValueError)"
    by (simp add: most_likely_def unpack2_def split: sum.splits)
  moreover have "(case probabilities 10 spec_fm game_dealt_card None 0 of Inl e \<Rightarrow> False | Inr pm \<Rightarrow> True)"
    by code_simp
  moreover have "most_likely 10 spec_fm game_dealt_card True 0 = Inl ValueError"
    "most_likely 10 spec_fm game_dealt_card False 0 = Inl ValueError"
    by code_simp+
  ultimately show ?thesis by blast
qed

section \<open>The deck and the visible states\<close>

text \<open>
  Every call of the game keeps \<open>game_inv\<close>, whether it returns or raises; so in every
  state a driver can reach, each player's matrix is at least the deck, cell by cell.
\<close>

lemma hand_count_cong:
  "(\<And>k. k \<in> set cs \<Longrightarrow> card_color (hp' ! k) = card_color (hp ! k) \<and> card_value (hp' ! k) = card_value (hp ! k))
   \<Longrightarrow> hand_count hp' cs c v = hand_count hp cs c v"
  by (simp add: hand_count_def cong: filter_cong)

lemma hand_count_append:
  "hand_count hp (cs @ [k]) c v =
     hand_count hp cs c v + (if card_color (hp ! k) = c \<and> card_value (hp ! k) = v then 1 else 0)"
  by (simp add: hand_count_def)

lemma hand_count_remove1:
  "k \<in> set cs \<Longrightarrow>
   hand_count hp (remove1 k cs) c v + (if card_color (hp ! k) = c \<and> card_value (hp ! k) = v then 1 else 0)
     = hand_count hp cs c v"
  by (induction cs) (auto simp: hand_count_def)

lemma game_inv_heap:
  assumes "game_inv g" and "length (heap g) \<le> length hp'"
    and "\<And>k. k < length (heap g) \<Longrightarrow>
           card_color (hp' ! k) = card_color (heap g ! k) \<and> card_value (hp' ! k) = card_value (heap g ! k)"
  shows "game_inv (g\<lparr>heap := hp'\<rparr>)"
proof -
  have "hand_count hp' (cards (players g ! p)) c v = hand_count (heap g) (cards (players g ! p)) c v"
    if "p < length (players g)" for p c v
    using that assms by (intro hand_count_cong) (auto simp: game_inv_def)
  then show ?thesis using assms(1,2) by (fastforce simp: game_inv_def)
qed

lemma game_inv_init: "game_inv init_game"
  by (simp add: game_inv_def init_game_def)

lemma game_inv_add_player: "game_inv g \<Longrightarrow> game_inv (add_player g)"
  by (auto simp: game_inv_def add_player_def nth_append hand_count_def)

lemma game_inv_new_card: "game_inv g \<Longrightarrow> game_inv (snd (new_card c v hid g))"
  by (auto simp: new_card_def nth_append intro!: game_inv_heap split: sum.splits)

lemma list_update_id_fields:
  "card_color x = card_color (hp ! cid) \<Longrightarrow> card_value x = card_value (hp ! cid) \<Longrightarrow>
   card_color (hp[cid := x] ! k) = card_color (hp ! k) \<and> card_value (hp[cid := x] ! k) = card_value (hp ! k)"
  by (cases "cid < length hp") (auto simp: nth_list_update list_update_beyond)


lemma game_inv_deal_core:
  assumes i: "game_inv g" and cid: "cid < length (heap g)" and pid: "pid < length (players g)"
    and c0: "c0 = card_color (heap g ! cid)" and v0: "v0 = card_value (heap g ! cid)"
  shows "game_inv (g\<lparr>deck := mat_upd (deck g) c0 v0 (\<lambda>x. x - 1),
                      states := dec_others pid c0 v0 (states g),
                      players := (players g)[pid := (players g ! pid)\<lparr>cards := cards (players g ! pid) @ [cid]\<rparr>]\<rparr>)"
  unfolding game_inv_def
proof (intro conjI allI impI ballI; simp add: length_dec_others)
  show "length (states g) = length (players g)" using i by (simp add: game_inv_def)
next
  fix p k
  assume "p < length (players g)"
    "k \<in> set (cards ((players g)[pid := (players g ! pid)\<lparr>cards := cards (players g ! pid) @ [cid]\<rparr>] ! p))"
  then show "k < length (heap g)"
    using i cid by (cases "p = pid") (auto simp: game_inv_def)
next
  fix c v :: nat
  assume cv: "c < 5" "v < 5"
  from i cv have "mat_get (deck g) c v \<le> mat_get INIT_ARRAY c v" by (simp add: game_inv_def)
  then show "mat_get (mat_upd (deck g) c0 v0 (\<lambda>x. x - 1)) c v \<le> mat_get INIT_ARRAY c v"
    using cv by (auto simp: mat_get_upd)
next
  fix c v p :: nat
  assume cv: "c < 5" "v < 5" and p: "p < length (states g)"
  from i cv p have h: "mat_get (deck g) c v + int (hand_count (heap g) (cards (players g ! p)) c v)
             \<le> mat_get (states g ! p) c v" by (simp add: game_inv_def)
  from i p have pp: "p < length (players g)" by (simp add: game_inv_def)
  show "mat_get (mat_upd (deck g) c0 v0 (\<lambda>x. x - 1)) c v +
         int (hand_count (heap g)
            (cards ((players g)[pid := (players g ! pid)\<lparr>cards := cards (players g ! pid) @ [cid]\<rparr>] ! p)) c v)
        \<le> mat_get (dec_others pid c0 v0 (states g) ! p) c v"
    using h cv p pp pid c0 v0
    by (cases "p = pid") (auto simp: mat_get_upd nth_dec_others hand_count_append)
qed

lemma game_inv_deal_card: "game_inv g \<Longrightarrow> game_inv (snd (deal_card cid game_start g))"
proof -
  assume i: "game_inv g"
  show ?thesis
  proof (cases "fst (deal_card cid game_start g) = Done")
    case False
    then have "snd (deal_card cid game_start g) = g"
      by (auto simp: deal_card_def Let_def split: if_splits)
    with i show ?thesis by simp
  next
    case True
    let ?crd = "heap g ! cid"
    let ?pid = "player_id ?crd"
    let ?g1 = "g\<lparr>deck := mat_upd (deck g) (card_color ?crd) (card_value ?crd) (\<lambda>x. x - 1),
                  states := dec_others ?pid (card_color ?crd) (card_value ?crd) (states g),
                  players := (players g)[?pid := (players g ! ?pid)\<lparr>cards := cards (players g ! ?pid) @ [cid]\<rparr>]\<rparr>"
    from True have ok: "cid < length (heap g)" "?pid < length (players g)"
      by (auto simp: deal_card_def Let_def check_isin_def split: if_splits)
    have g1: "game_inv ?g1" by (rule game_inv_deal_core [OF i ok]) simp_all
    let ?hp = "if \<not> game_start
               then (heap g)[cid := ?crd\<lparr>cards_in_hand := cards_in_hand ?crd @ cards (players g ! ?pid)\<rparr>]
               else heap g"
    have "game_inv (?g1\<lparr>heap := ?hp\<rparr>)"
      by (rule game_inv_heap [OF g1]) (auto simp: list_update_id_fields)
    moreover have "snd (deal_card cid game_start g) = ?g1\<lparr>heap := ?hp\<rparr>"
      using True by (auto simp: deal_card_def Let_def add_card_def split: if_splits)
    ultimately show ?thesis by simp
  qed
qed


lemma game_inv_play_core:
  assumes i: "game_inv g" and pid: "pid < length (players g)"
    and cid: "cid \<in> set (cards (players g ! pid))"
    and c0: "c0 = card_color (heap g ! cid)" and v0: "v0 = card_value (heap g ! cid)"
  shows "game_inv (g\<lparr>players := (players g)[pid := (players g ! pid)\<lparr>cards := remove1 cid (cards (players g ! pid))\<rparr>]\<rparr>)"
    and "game_inv (g\<lparr>players := (players g)[pid := (players g ! pid)\<lparr>cards := remove1 cid (cards (players g ! pid))\<rparr>],
                      states := (states g)[pid := mat_upd (states g ! pid) c0 v0 (\<lambda>x. x - 1)]\<rparr>)"
proof -
  have len: "length (states g) = length (players g)" using i by (simp add: game_inv_def)
  have refs: "k < length (heap g)"
    if "p < length (players g)"
      "k \<in> set (cards ((players g)[pid := (players g ! pid)\<lparr>cards := remove1 cid (cards (players g ! pid))\<rparr>] ! p))"
    for p k
    using that i by (cases "p = pid") (auto simp: game_inv_def dest: notin_set_remove1)
  have dk: "mat_get (deck g) c v \<le> mat_get INIT_ARRAY c v" if "c < 5" "v < 5" for c v
    using that i by (simp add: game_inv_def)
  have h: "mat_get (deck g) c v + int (hand_count (heap g) (cards (players g ! p)) c v)
             \<le> mat_get (states g ! p) c v" if "c < 5" "v < 5" "p < length (players g)" for c v p
    using that i by (simp add: game_inv_def)
  have rm: "int (hand_count (heap g) (remove1 cid (cards (players g ! pid))) c v)
      = int (hand_count (heap g) (cards (players g ! pid)) c v) - (if c0 = c \<and> v0 = v then 1 else 0)" for c v
    using hand_count_remove1 [OF cid, of "heap g" c v] c0 v0 by auto
  show "game_inv (g\<lparr>players := (players g)[pid := (players g ! pid)\<lparr>cards := remove1 cid (cards (players g ! pid))\<rparr>]\<rparr>)"
    unfolding game_inv_def
  proof (intro conjI allI impI ballI; simp add: len)
    fix p k
    assume "p < length (players g)"
      "k \<in> set (cards ((players g)[pid := (players g ! pid)\<lparr>cards := remove1 cid (cards (players g ! pid))\<rparr>] ! p))"
    then show "k < length (heap g)" by (rule refs)
  next
    fix c v :: nat assume "c < 5" "v < 5"
    then show "mat_get (deck g) c v \<le> mat_get INIT_ARRAY c v" by (rule dk)
  next
    fix c v p :: nat assume a: "c < 5" "v < 5" "p < length (players g)"
    show "mat_get (deck g) c v + int (hand_count (heap g)
            (cards ((players g)[pid := (players g ! pid)\<lparr>cards := remove1 cid (cards (players g ! pid))\<rparr>] ! p)) c v)
          \<le> mat_get (states g ! p) c v"
      using h [OF a] a pid rm [of c v] by (cases "p = pid") auto
  qed
  show "game_inv (g\<lparr>players := (players g)[pid := (players g ! pid)\<lparr>cards := remove1 cid (cards (players g ! pid))\<rparr>],
                      states := (states g)[pid := mat_upd (states g ! pid) c0 v0 (\<lambda>x. x - 1)]\<rparr>)"
    unfolding game_inv_def
  proof (intro conjI allI impI ballI; simp add: len)
    fix p k
    assume "p < length (players g)"
      "k \<in> set (cards ((players g)[pid := (players g ! pid)\<lparr>cards := remove1 cid (cards (players g ! pid))\<rparr>] ! p))"
    then show "k < length (heap g)" by (rule refs)
  next
    fix c v :: nat assume "c < 5" "v < 5"
    then show "mat_get (deck g) c v \<le> mat_get INIT_ARRAY c v" by (rule dk)
  next
    fix c v p :: nat assume a: "c < 5" "v < 5" "p < length (players g)"
    show "mat_get (deck g) c v + int (hand_count (heap g)
            (cards ((players g)[pid := (players g ! pid)\<lparr>cards := remove1 cid (cards (players g ! pid))\<rparr>] ! p)) c v)
          \<le> mat_get ((states g)[pid := mat_upd (states g ! pid) c0 v0 (\<lambda>x. x - 1)] ! p) c v"
      using h [OF a] a pid len rm [of c v] by (cases "p = pid") (auto simp: mat_get_upd)
  qed
qed

lemma game_inv_other_fields:
  "game_inv (g\<lparr>stacks := s\<rparr>) = game_inv g" "game_inv (g\<lparr>score := x\<rparr>) = game_inv g"
  "game_inv (g\<lparr>penalty := y\<rparr>) = game_inv g"
  by (simp_all add: game_inv_def)

lemma game_inv_play_card: "game_inv g \<Longrightarrow> game_inv (snd (play_card player cid g))"
proof -
  assume i: "game_inv g"
  let ?pid = "nat player"
  let ?g1 = "g\<lparr>heap := (heap g)[cid := (heap g ! cid)\<lparr>played := True\<rparr>]\<rparr>"
  have g1: "game_inv ?g1"
    by (rule game_inv_heap [OF i]) (auto simp: list_update_id_fields)
  show ?thesis
  proof (cases "check_isin player (0, int (length (players g))) \<and> cid < length (heap g)
                \<and> cid \<in> set (cards (players g ! ?pid))")
    case False
    then have "snd (play_card player cid g) = g \<or> snd (play_card player cid g) = ?g1"
      by (auto simp: play_card_def Let_def)
    with i g1 show ?thesis by auto
  next
    case True
    then have pid: "?pid < length (players ?g1)" and cid: "cid \<in> set (cards (players ?g1 ! ?pid))"
      by (auto simp: check_isin_def)
    note core = game_inv_play_core [OF g1 pid cid refl refl]
    show ?thesis
      using True core
      by (auto simp: play_card_def Let_def game_inv_other_fields)
  qed
qed


lemma add_information_ids:
  "add_information info c = Inr c' \<Longrightarrow> card_color c' = card_color c \<and> card_value c' = card_value c"
  by (auto simp: add_information_def Let_def split: if_splits)

lemma inform_targets_ids:
  "length (snd (inform_targets cs info idxs hp)) = length hp \<and>
   card_color (snd (inform_targets cs info idxs hp) ! k) = card_color (hp ! k) \<and>
   card_value (snd (inform_targets cs info idxs hp) ! k) = card_value (hp ! k)"
proof (induction idxs arbitrary: hp)
  case Nil
  then show ?case by simp
next
  case (Cons idx idxs)
  show ?case
    by (auto simp: Cons.IH list_update_id_fields add_information_ids split: option.splits sum.splits)
qed

lemma inform_others_ids:
  "length (snd (inform_others info card_index ics hp)) = length hp \<and>
   card_color (snd (inform_others info card_index ics hp) ! k) = card_color (hp ! k) \<and>
   card_value (snd (inform_others info card_index ics hp) ! k) = card_value (hp ! k)"
proof (induction ics arbitrary: hp)
  case Nil
  then show ?case by simp
next
  case (Cons ic ics)
  obtain i cid where ic: "ic = (i, cid)" by (cases ic)
  show ?case
    by (auto simp: ic Cons.IH list_update_id_fields add_information_ids split: sum.splits)
qed

lemma hand_add_information_ids:
  "length (snd (hand_add_information h card_index info hp)) = length hp \<and>
   card_color (snd (hand_add_information h card_index info hp) ! k) = card_color (hp ! k) \<and>
   card_value (snd (hand_add_information h card_index info hp) ! k) = card_value (hp ! k)"
proof (cases "inform_targets (cards h) info card_index hp")
  case (Pair out hp')
  from inform_targets_ids [of "cards h" info card_index hp k] Pair
  have t: "length hp' = length hp" "card_color (hp' ! k) = card_color (hp ! k)"
    "card_value (hp' ! k) = card_value (hp ! k)" by simp_all
  show ?thesis
  proof (cases out)
    case Done
    with Pair t inform_others_ids [of info card_index "enumerate 0 (cards h)" hp' k]
    show ?thesis by (simp add: hand_add_information_def)
  next
    case (Raised e)
    with Pair t show ?thesis by (simp add: hand_add_information_def)
  qed
qed

lemma game_inv_give_information:
  "game_inv g \<Longrightarrow> game_inv (snd (give_information player card_index info g))"
proof (cases "py_index (players g) player")
  case None
  assume "game_inv g"
  with None show ?thesis by (simp add: give_information_def)
next
  case (Some h)
  assume i: "game_inv g"
  have "game_inv (g\<lparr>heap := snd (hand_add_information h card_index info (heap g))\<rparr>)"
    by (rule game_inv_heap [OF i]) (simp_all add: hand_add_information_ids)
  with Some show ?thesis by (auto simp: give_information_def split: prod.splits)
qed

lemma game_inv_random_card: "game_inv g \<Longrightarrow> game_inv (snd (random_card sample pid g))"
  by (simp add: random_card_def game_inv_new_card)

lemma game_inv_deal_hand_loop:
  "game_inv g \<Longrightarrow> game_inv (snd (deal_hand_loop pid samples game_start g))"
proof (induction samples arbitrary: g)
  case Nil
  then show ?case by simp
next
  case (Cons sample samples)
  obtain o1 g1 where r: "random_card sample pid g = (o1, g1)" by (cases "random_card sample pid g")
  have g1: "game_inv g1" using game_inv_random_card [OF Cons.prems, of sample pid] r by simp
  obtain o2 g2 where d: "deal_card (length (heap g1) - 1) game_start g1 = (o2, g2)"
    by (cases "deal_card (length (heap g1) - 1) game_start g1")
  have g2: "game_inv g2" using game_inv_deal_card [OF g1, of "length (heap g1) - 1" game_start] d by simp
  show ?case
    using r d g1 g2 Cons.IH [OF g2] by (cases o1; cases o2) simp_all
qed

lemma game_inv_deal_hand: "game_inv g \<Longrightarrow> game_inv (snd (deal_hand player samples game_start g))"
  by (simp add: deal_hand_def game_inv_deal_hand_loop)

lemma game_inv_exec: "game_inv g \<Longrightarrow> game_inv (snd (exec a g))"
  by (cases a)
     (auto simp: game_inv_add_player game_inv_new_card game_inv_deal_card game_inv_deal_hand
        game_inv_play_card game_inv_give_information split: sum.splits)

lemma game_inv_run: "game_inv g \<Longrightarrow> game_inv (run as g)"
  by (induction as arbitrary: g) (simp_all add: game_inv_exec)

lemma states_ge_deck:
  assumes "p < length (states (run as init_game))" and "c < 5" and "v < 5"
  shows "mat_get (deck (run as init_game)) c v \<le> mat_get (states (run as init_game) ! p) c v"
proof -
  have "game_inv (run as init_game)" by (rule game_inv_run [OF game_inv_init])
  then have "mat_get (deck (run as init_game)) c v
      + int (hand_count (heap (run as init_game)) (cards (players (run as init_game) ! p)) c v)
      \<le> mat_get (states (run as init_game) ! p) c v"
    using assms by (simp add: game_inv_def)
  then show ?thesis by simp
qed

text \<open>
  C4 fails on the code. When two players each hold a card of identity (0, 0), the deck has
  one such card left, and each player's matrix counts two: the one in the deck and the one
  in the player's own hand, which the player does not see. The deck is below the
  elementwise minimum of the matrices.
\<close>

theorem deck_below_min_of_states:
  "mat_get (deck game_same_identity) 0 0 = 1 \<and>
   length (states game_same_identity) = 2 \<and>
   mat_get (states game_same_identity ! 0) 0 0 = 2 \<and>
   mat_get (states game_same_identity ! 1) 0 0 = 2 \<and>
   mat_get (the (elementwise_min (states game_same_identity))) 0 0 = 2 \<and>
   elementwise_min (states game_same_identity) \<noteq> Some (deck game_same_identity)"
  by code_simp

end
